theory Spec2Isabelle
  imports Main
begin

section \<open>SC.ObjectProxy (lib/core.js): values, objects and the proxy's world\<close>

text \<open>
  JavaScript values. Numbers are the integers among them; an object or an array is a
  reference into the heap, so that equality on \<open>val\<close> is JavaScript's \<open>===\<close>
  (identity on references, value equality on primitives).
\<close>

datatype val =
    Undefined
  | Null
  | VBool bool
  | VNum int
  | VStr string
  | VFun nat
  | Ref nat

text \<open>
  A heap object has named properties (an absent property reads as \<open>Undefined\<close>, as
  \<open>obj[key]\<close> does) and, when it has the collection capability, its ordered elements.
\<close>

record obj =
  props :: "string \<Rightarrow> val"
  elems :: "val list option"

type_synonym heap = "nat \<Rightarrow> obj"

text \<open>JavaScript's truthiness, as \<open>content && ...\<close> and \<open>!x\<close> test it.\<close>

fun truthy :: "val \<Rightarrow> bool" where
  "truthy Undefined = False"
| "truthy Null = False"
| "truthy (VBool b) = b"
| "truthy (VNum n) = (n \<noteq> 0)"
| "truthy (VStr s) = (s \<noteq> [])"
| "truthy (VFun f) = True"
| "truthy (Ref a) = True"

text \<open>
  Modelled from the spec: \<open>SC.get\<close> and \<open>SC.set\<close> (line 8) are the observable
  attribute store of the framework, which is not part of lib/core.js. \<open>get(obj, key)\<close>
  reads a property of an object; on an object with the collection capability
  \<open>isEnumerable\<close> is true, \<open>length\<close> is the number of elements and
  \<open>firstObject\<close> the first of them. A value that is not an object has no properties.
  \<open>set(obj, key, value)\<close> stores a property of an object and stores nothing on a value
  that is not an object.
\<close>

definition sc_get :: "heap \<Rightarrow> val \<Rightarrow> string \<Rightarrow> val" where
  "sc_get h v k =
     (case v of
        Ref a \<Rightarrow>
          (case elems (h a) of
             Some xs \<Rightarrow>
               (if k = ''isEnumerable'' then VBool True
                else if k = ''length'' then VNum (int (length xs))
                else if k = ''firstObject'' then (case xs of [] \<Rightarrow> Undefined | x # _ \<Rightarrow> x)
                else props (h a) k)
           | None \<Rightarrow> props (h a) k)
      | _ \<Rightarrow> Undefined)"

definition sc_set :: "heap \<Rightarrow> val \<Rightarrow> string \<Rightarrow> val \<Rightarrow> heap" where
  "sc_set h v k x =
     (case v of
        Ref a \<Rightarrow> h(a := (h a)\<lparr>props := (props (h a))(k := x)\<rparr>)
      | _ \<Rightarrow> h)"

text \<open>Lines 10-12: \<open>SC.isEnumerable\<close>.\<close>

definition SC_isEnumerable :: "heap \<Rightarrow> val \<Rightarrow> bool" where
  "SC_isEnumerable h content = (sc_get h content ''isEnumerable'' = VBool True)"

text \<open>
  Lines 116-136: the function of the computed property \<open>observableContent\<close>, on the
  values of \<open>content\<close> and \<open>allowsMultipleContent\<close> it reads from the proxy.
\<close>

definition observableContent :: "heap \<Rightarrow> val \<Rightarrow> bool \<Rightarrow> val" where
  "observableContent h c allowsMultiple =
     (if truthy c \<and> SC_isEnumerable h c then
        (let len = sc_get h c ''length'';
             c1 =
               (if len = VNum 1 then sc_get h c ''firstObject''
                else if len = VNum 0 \<or> \<not> allowsMultiple then Null
                else c)
         in if truthy c1 \<and> \<not> allowsMultiple \<and> SC_isEnumerable h c1
            then Null else c1)
      else c)"

subsection \<open>The proxy instances and what they do to their collaborators\<close>

text \<open>
  What a forwarded accessor returns: a value, or the fresh array that \<open>getEach\<close>
  built (it is in no object's property, so it is carried by value).
\<close>

datatype result = Val val | Seq "val list"

text \<open>
  The errors: the \<open>SC.Error\<close> of line 190, which carries the proxy and the key of
  its message \<open>"%@.%@ is not editable"\<close>, and JavaScript's TypeError for a call of
  \<open>getEach\<close> or \<open>setEach\<close> on an object that has no such method.
\<close>

datatype error = NotEditable nat string | TypeError

text \<open>
  The calls a proxy makes on its collaborators, in the order it makes them: the
  forwarding calls on the target, the target's \<open>destroy\<close>, and the framework's
  \<open>notifyPropertyChange\<close> and \<open>defineProperty\<close> on the proxy (named by its number).
\<close>

datatype event =
    EvGet val string
  | EvSet val string val
  | EvGetEach val string
  | EvSetEach val string val
  | EvDestroy val
  | EvNotify nat string
  | EvDefine nat string

text \<open>
  An instance: the attributes of lines 68, 82 and 101, the keys for which line 171
  installed an accessor on this instance (one entry per installation), and the caches of
  its cacheable computed properties. The instance has no \<open>_proxiedProperties\<close> of its
  own: line 212 is evaluated once, when the class is defined, and every instance finds
  that one set through the class.
\<close>

record proxy =
  content :: val
  allowsMultipleContent :: bool
  isEditable :: bool
  defined :: "string list"
  oc_cache :: "val option"
  cache :: "string \<Rightarrow> result option"

record world =
  heap :: heap
  proxies :: "nat \<Rightarrow> proxy"
  proxiedProperties :: "string list"
  trace :: "event list"

definition upd_proxy :: "world \<Rightarrow> nat \<Rightarrow> (proxy \<Rightarrow> proxy) \<Rightarrow> world" where
  "upd_proxy w p f = w\<lparr>proxies := (proxies w)(p := f (proxies w p))\<rparr>"

definition emit :: "world \<Rightarrow> event \<Rightarrow> world" where
  "emit w e = w\<lparr>trace := trace w @ [e]\<rparr>"

text \<open>Line 212 as an instance sees it: \<open>this._proxiedProperties\<close> is the class's set.\<close>

definition this_proxiedProperties :: "world \<Rightarrow> nat \<Rightarrow> string list" where
  "this_proxiedProperties w p = proxiedProperties w"

text \<open>
  Modelled from the spec: the cached computed property of the framework, which is not
  part of lib/core.js. \<open>get(this, 'observableContent')\<close> returns the cached value when
  there is one, and otherwise runs the function of lines 116-136 and caches what it
  returns; the cache is dropped when \<open>content\<close> is set.
\<close>

definition get_observableContent :: "world \<Rightarrow> nat \<Rightarrow> val \<times> world" where
  "get_observableContent w p =
     (case oc_cache (proxies w p) of
        Some v \<Rightarrow> (v, w)
      | None \<Rightarrow>
          (let v = observableContent (heap w) (content (proxies w p))
                     (allowsMultipleContent (proxies w p))
           in (v, upd_proxy w p (\<lambda>q. q\<lparr>oc_cache := Some v\<rparr>))))"

text \<open>\<open>SC.none\<close>: null or undefined.\<close>

definition SC_none :: "val \<Rightarrow> bool" where
  "SC_none v = (v = Null \<or> v = Undefined)"

text \<open>Lines 92-94: \<open>hasContent\<close>.\<close>

definition hasContent :: "world \<Rightarrow> nat \<Rightarrow> bool \<times> world" where
  "hasContent w p =
     (let (c, w1) = get_observableContent w p in (\<not> SC_none c, w1))"

text \<open>
  Modelled from the spec: the collection capability of the framework, which is not part
  of lib/core.js. \<open>getEach(key)\<close> is the ordered sequence of \<open>get(item, key)\<close>, one
  value per element; \<open>setEach(key, value)\<close> is \<open>set(item, key, value)\<close> on every
  element in order; \<open>uniq()\<close> keeps the first occurrence of every value. An object
  without the capability has none of these methods, and calling one is a TypeError.
\<close>

definition getEach :: "heap \<Rightarrow> val \<Rightarrow> string \<Rightarrow> error + val list" where
  "getEach h c k =
     (case c of
        Ref a \<Rightarrow>
          (case elems (h a) of
             Some xs \<Rightarrow> Inr (map (\<lambda>item. sc_get h item k) xs)
           | None \<Rightarrow> Inl TypeError)
      | _ \<Rightarrow> Inl TypeError)"

definition setEach :: "heap \<Rightarrow> val \<Rightarrow> string \<Rightarrow> val \<Rightarrow> error + heap" where
  "setEach h c k x =
     (case c of
        Ref a \<Rightarrow>
          (case elems (h a) of
             Some xs \<Rightarrow> Inr (foldl (\<lambda>h' item. sc_set h' item k x) h xs)
           | None \<Rightarrow> Inl TypeError)
      | _ \<Rightarrow> Inl TypeError)"

definition uniq :: "val list \<Rightarrow> val list" where
  "uniq vs = foldl (\<lambda>ret v. if v \<in> set ret then ret else ret @ [v]) [] vs"

text \<open>
  Lines 171-199: the function of the accessor that \<open>unknownProperty\<close> installs for
  \<open>key\<close>, called on proxy \<open>p\<close> with the value to write, or with \<open>Undefined\<close> to read.
\<close>

definition forwarded :: "world \<Rightarrow> nat \<Rightarrow> string \<Rightarrow> val \<Rightarrow> (error + result) \<times> world" where
  "forwarded w p key v =
     (let (c, w1) = get_observableContent w p in
      if c = Null \<or> c = Undefined then (Inr (Val Undefined), w1)
      else if v = Undefined then
        (if SC_isEnumerable (heap w1) c then
           (case getEach (heap w1) c key of
              Inl e \<Rightarrow> (Inl e, w1)
            | Inr vs \<Rightarrow>
                (Inr (if vs = [] then Val Undefined
                      else if length (uniq vs) = 1 then Val (hd vs)
                      else Seq vs),
                 emit w1 (EvGetEach c key)))
         else (Inr (Val (sc_get (heap w1) c key)), emit w1 (EvGet c key)))
      else if \<not> isEditable (proxies w1 p) then (Inl (NotEditable p key), w1)
      else if SC_isEnumerable (heap w1) c then
        (case setEach (heap w1) c key v of
           Inl e \<Rightarrow> (Inl e, w1)
         | Inr h' \<Rightarrow> (Inr (Val v), emit (w1\<lparr>heap := h'\<rparr>) (EvSetEach c key v)))
      else (Inr (Val v), emit (w1\<lparr>heap := sc_set (heap w1) c key v\<rparr>) (EvSet c key v)))"

text \<open>
  Modelled from the spec: the cacheable computed property that line 199 makes of the
  function, which is the framework's and not part of lib/core.js. A read returns the
  cached value when there is one, and otherwise runs the function and caches what it
  returns. A write drops the cached value, runs the function with the value, and caches
  what the function returns. An error leaves nothing cached.
\<close>

definition computed_get :: "world \<Rightarrow> nat \<Rightarrow> string \<Rightarrow> (error + result) \<times> world" where
  "computed_get w p key =
     (case cache (proxies w p) key of
        Some r \<Rightarrow> (Inr r, w)
      | None \<Rightarrow>
          (case forwarded w p key Undefined of
             (Inl e, w1) \<Rightarrow> (Inl e, w1)
           | (Inr r, w1) \<Rightarrow> (Inr r, upd_proxy w1 p (\<lambda>q. q\<lparr>cache := (cache q)(key := Some r)\<rparr>))))"

definition computed_set :: "world \<Rightarrow> nat \<Rightarrow> string \<Rightarrow> val \<Rightarrow> (error + result) \<times> world" where
  "computed_set w p key v =
     (case forwarded (upd_proxy w p (\<lambda>q. q\<lparr>cache := (cache q)(key := None)\<rparr>)) p key v of
        (Inl e, w1) \<Rightarrow> (Inl e, w1)
      | (Inr r, w1) \<Rightarrow> (Inr r, upd_proxy w1 p (\<lambda>q. q\<lparr>cache := (cache q)(key := Some r)\<rparr>)))"

text \<open>
  Modelled from the spec: \<open>SC.Set.add\<close> (a set holds a key once, in the order of
  insertion) and \<open>SC.defineProperty\<close>, which installs the accessor on the instance.
\<close>

definition set_add :: "string \<Rightarrow> string list \<Rightarrow> string list" where
  "set_add key ks = (if key \<in> set ks then ks else ks @ [key])"

definition defineProperty :: "world \<Rightarrow> nat \<Rightarrow> string \<Rightarrow> world" where
  "defineProperty w p key =
     emit (upd_proxy w p (\<lambda>q. q\<lparr>defined := defined q @ [key]\<rparr>)) (EvDefine p key)"

text \<open>
  Lines 169-201: \<open>unknownProperty\<close>. The \<open>get(this, key)\<close> of line 200 finds the
  accessor that line 171 has just installed, and reads through it. The \<open>value\<close>
  parameter of \<open>unknownProperty\<close> itself is used nowhere in its body: the one of
  lines 171-199 is the parameter of the accessor's function.
\<close>

definition unknownProperty :: "world \<Rightarrow> nat \<Rightarrow> string \<Rightarrow> val \<Rightarrow> (error + result) \<times> world" where
  "unknownProperty w p key v =
     (let w1 = w\<lparr>proxiedProperties := set_add key (this_proxiedProperties w p)\<rparr>;
          w2 = defineProperty w1 p key
      in computed_get w2 p key)"

text \<open>
  Modelled from the spec: the framework's dispatch of a read of a key that the class
  does not declare. The first access goes to \<open>unknownProperty\<close>; a later access uses
  the accessor installed on the instance.
\<close>

definition proxy_get :: "world \<Rightarrow> nat \<Rightarrow> string \<Rightarrow> (error + result) \<times> world" where
  "proxy_get w p key =
     (if key \<in> set (defined (proxies w p)) then computed_get w p key
      else unknownProperty w p key Undefined)"

text \<open>
  Modelled from the spec: \<open>notifyPropertyChange(key)\<close> of the framework invalidates
  the cache of the key on the instance and emits a change notification for it.
\<close>

definition notifyPropertyChange :: "world \<Rightarrow> nat \<Rightarrow> string \<Rightarrow> world" where
  "notifyPropertyChange w p key =
     emit (upd_proxy w p (\<lambda>q. q\<lparr>cache := (cache q)(key := None)\<rparr>)) (EvNotify p key)"

text \<open>Lines 205-209: \<open>contentDidChange\<close>.\<close>

definition contentDidChange :: "world \<Rightarrow> nat \<Rightarrow> world" where
  "contentDidChange w p =
     foldl (\<lambda>w' key. notifyPropertyChange w' p key) w (this_proxiedProperties w p)"

text \<open>
  Modelled from the spec: \<open>set(this, 'content', value)\<close> of the framework stores the
  attribute, drops the cache of \<open>observableContent\<close>, which depends on it, and calls the
  observer of \<open>content\<close> (line 209).
\<close>

definition set_content :: "world \<Rightarrow> nat \<Rightarrow> val \<Rightarrow> world" where
  "set_content w p v =
     contentDidChange (upd_proxy w p (\<lambda>q. q\<lparr>content := v, oc_cache := None\<rparr>)) p"

text \<open>
  Modelled from the spec: the destroy capability, which is the framework's. An object
  satisfies it when it exposes a callable \<open>destroy\<close> member: \<open>content.destroy\<close> is
  a plain member access, and \<open>SC.typeOf(x) === 'function'\<close> holds of a function.
\<close>

definition js_member :: "heap \<Rightarrow> val \<Rightarrow> string \<Rightarrow> val" where
  "js_member h v k = (case v of Ref a \<Rightarrow> props (h a) k | _ \<Rightarrow> Undefined)"

fun is_function :: "val \<Rightarrow> bool" where
  "is_function (VFun f) = True"
| "is_function _ = False"

text \<open>
  Lines 150-157: \<open>destroy\<close>. What the target's own \<open>destroy\<close> does is the
  target's business; the call is recorded. The result is the proxy.
\<close>

definition destroy :: "world \<Rightarrow> nat \<Rightarrow> nat \<times> world" where
  "destroy w p =
     (let (c, w1) = get_observableContent w p;
          w2 = (if truthy c \<and> is_function (js_member (heap w1) c ''destroy'')
                then emit w1 (EvDestroy c) else w1)
      in (p, set_content w2 p Null))"

text \<open>
  A world to start from: no object has a property or an element, every instance is as
  \<open>create()\<close> leaves it (lines 68, 82, 101), and the class's set is empty.
\<close>

definition empty_obj :: obj where
  "empty_obj = \<lparr>props = (\<lambda>k. Undefined), elems = None\<rparr>"

definition new_proxy :: proxy where
  "new_proxy = \<lparr>content = Null, allowsMultipleContent = False, isEditable = True,
                 defined = [], oc_cache = None, cache = (\<lambda>k. None)\<rparr>"

definition init_world :: world where
  "init_world = \<lparr>heap = (\<lambda>a. empty_obj), proxies = (\<lambda>p. new_proxy),
                  proxiedProperties = [], trace = []\<rparr>"

text \<open>
  The read of a collection as the specification words it (4.2): an empty gathered
  sequence reads as undefined; exactly one distinct value reads as that value; otherwise
  the read is the full sequence, one value per element.
\<close>

definition spec_collapse :: "val list \<Rightarrow> result" where
  "spec_collapse vs =
     (case remdups vs of
        [] \<Rightarrow> Val Undefined
      | [x] \<Rightarrow> Val x
      | _ \<Rightarrow> Seq vs)"

subsection \<open>Worlds of the scenarios\<close>

text \<open>
  Object 1 is a collection of the three objects 2, 3 and 4, which agree on \<open>kind\<close> and
  differ on \<open>status\<close>; proxy 0 has it as content and allows multiple content.
\<close>

definition team_heap :: heap where
  "team_heap =
     (\<lambda>a. empty_obj)
       (1 := \<lparr>props = (\<lambda>k. Undefined), elems = Some [Ref 2, Ref 3, Ref 4]\<rparr>,
        2 := \<lparr>props = (\<lambda>k. Undefined)(''status'' := VStr ''ok'', ''kind'' := VStr ''task''),
               elems = None\<rparr>,
        3 := \<lparr>props = (\<lambda>k. Undefined)(''status'' := VStr ''ok'', ''kind'' := VStr ''task''),
               elems = None\<rparr>,
        4 := \<lparr>props = (\<lambda>k. Undefined)(''status'' := VStr ''fail'', ''kind'' := VStr ''task''),
               elems = None\<rparr>)"

definition team_world :: world where
  "team_world =
     \<lparr>heap = team_heap,
      proxies = (\<lambda>p. new_proxy)(0 := new_proxy\<lparr>content := Ref 1, allowsMultipleContent := True\<rparr>),
      proxiedProperties = [], trace = []\<rparr>"

text \<open>
  Object 1 is a scalar with a name and a callable \<open>destroy\<close>; proxy 0 has it as content
  and has forwarded \<open>name\<close>, editable in one world and not editable in the other.
\<close>

definition ann_heap :: heap where
  "ann_heap =
     (\<lambda>a. empty_obj)
       (1 := \<lparr>props = (\<lambda>k. Undefined)(''name'' := VStr ''Ann'', ''destroy'' := VFun 0),
               elems = None\<rparr>)"

definition ann_world :: world where
  "ann_world =
     \<lparr>heap = ann_heap,
      proxies = (\<lambda>p. new_proxy)(0 := new_proxy\<lparr>content := Ref 1, defined := [''name'']\<rparr>),
      proxiedProperties = [''name''], trace = []\<rparr>"

definition ann_locked :: world where
  "ann_locked =
     \<lparr>heap = ann_heap,
      proxies = (\<lambda>p. new_proxy)
        (0 := new_proxy\<lparr>content := Ref 1, isEditable := False, defined := [''name'']\<rparr>),
      proxiedProperties = [''name''], trace = []\<rparr>"

text \<open>Proxy 0 has no content and is not editable.\<close>

definition locked_world :: world where
  "locked_world = upd_proxy init_world 0 (\<lambda>q. q\<lparr>isEditable := False\<rparr>)"

text \<open>Object 1 is a collection whose only element, object 2, is a collection of two numbers.\<close>

definition nested_heap :: heap where
  "nested_heap =
     (\<lambda>a. empty_obj)
       (1 := \<lparr>props = (\<lambda>k. Undefined), elems = Some [Ref 2]\<rparr>,
        2 := \<lparr>props = (\<lambda>k. Undefined), elems = Some [VNum 1, VNum 2]\<rparr>)"

text \<open>Proxy 0 has the value \<open>t\<close> as content.\<close>

definition falsy_world :: "val \<Rightarrow> world" where
  "falsy_world t =
     init_world\<lparr>proxies := (\<lambda>p. new_proxy)(0 := new_proxy\<lparr>content := t\<rparr>)\<rparr>"

text \<open>Object 1 is a collection whose only element, object 2, is a scalar.\<close>

definition solo_heap :: heap where
  "solo_heap =
     (\<lambda>a. empty_obj)
       (1 := \<lparr>props = (\<lambda>k. Undefined), elems = Some [Ref 2]\<rparr>,
        2 := \<lparr>props = (\<lambda>k. Undefined)(''name'' := VStr ''Ann''), elems = None\<rparr>)"

text \<open>The world after proxy 0 of \<open>team_world\<close> has read \<open>status\<close> for the first time.\<close>

definition team_read :: world where
  "team_read = snd (proxy_get team_world 0 ''status'')"

section \<open>Basic facts\<close>

lemma upd_proxy_simps:
  "heap (upd_proxy w p f) = heap w"
  "trace (upd_proxy w p f) = trace w"
  "proxiedProperties (upd_proxy w p f) = proxiedProperties w"
  "proxies (upd_proxy w p f) q = (if q = p then f (proxies w p) else proxies w q)"
  by (simp_all add: upd_proxy_def)

lemma emit_simps:
  "heap (emit w e) = heap w"
  "trace (emit w e) = trace w @ [e]"
  "proxiedProperties (emit w e) = proxiedProperties w"
  "proxies (emit w e) = proxies w"
  by (simp_all add: emit_def)

text \<open>Reading \<open>observableContent\<close> changes nothing but its own cache.\<close>

lemma goc_frame:
  "heap (snd (get_observableContent w p)) = heap w"
  "trace (snd (get_observableContent w p)) = trace w"
  "proxiedProperties (snd (get_observableContent w p)) = proxiedProperties w"
  "content (proxies (snd (get_observableContent w p)) q) = content (proxies w q)"
  "allowsMultipleContent (proxies (snd (get_observableContent w p)) q) =
     allowsMultipleContent (proxies w q)"
  "isEditable (proxies (snd (get_observableContent w p)) q) = isEditable (proxies w q)"
  "defined (proxies (snd (get_observableContent w p)) q) = defined (proxies w q)"
  "cache (proxies (snd (get_observableContent w p)) q) = cache (proxies w q)"
  by (simp_all add: get_observableContent_def upd_proxy_simps Let_def split: option.splits)

lemma goc_cache_upd:
  "fst (get_observableContent (upd_proxy w p (\<lambda>q. q\<lparr>cache := f q\<rparr>)) p) =
     fst (get_observableContent w p)"
  by (simp add: get_observableContent_def upd_proxy_simps Let_def split: option.splits)

lemma enumerable_truthy: "SC_isEnumerable h c \<Longrightarrow> truthy c"
  by (cases c) (simp_all add: SC_isEnumerable_def sc_get_def)

lemma falsy_not_enumerable: "\<not> truthy t \<Longrightarrow> \<not> SC_isEnumerable h t"
  using enumerable_truthy by blast

lemma collection_enumerable: "elems (h a) = Some xs \<Longrightarrow> SC_isEnumerable h (Ref a)"
  by (simp add: SC_isEnumerable_def sc_get_def)

lemma sc_set_frame:
  "elems (sc_set h t k v a) = elems (h a)"
  "Ref a \<noteq> t \<or> k' \<noteq> k \<Longrightarrow> props (sc_set h t k v a) k' = props (h a) k'"
  "props (sc_set h (Ref a) k v a) k = v"
  by (auto simp: sc_set_def split: val.splits)

subsection \<open>\<open>uniq\<close> counts the distinct values\<close>

lemma uniq_acc:
  "distinct acc \<Longrightarrow>
   distinct (foldl (\<lambda>ret v. if v \<in> set ret then ret else ret @ [v]) acc vs) \<and>
   set (foldl (\<lambda>ret v. if v \<in> set ret then ret else ret @ [v]) acc vs) = set acc \<union> set vs"
  by (induction vs arbitrary: acc) auto

lemma length_uniq: "length (uniq vs) = card (set vs)"
proof -
  have "distinct (uniq vs)" and "set (uniq vs) = set vs"
    using uniq_acc [of "[]" vs] by (simp_all add: uniq_def)
  then show ?thesis by (metis distinct_card)
qed

lemma collapse_eq:
  "(if vs = [] then Val Undefined else if length (uniq vs) = 1 then Val (hd vs) else Seq vs) =
     spec_collapse vs"
proof (cases "remdups vs")
  case Nil
  then have "vs = []" by simp
  then show ?thesis by (simp add: spec_collapse_def)
next
  case (Cons x ys)
  then have ne: "vs \<noteq> []" by auto
  show ?thesis
  proof (cases ys)
    case Nil
    with Cons have r: "remdups vs = [x]" by simp
    then have "set vs = {x}" by (metis set_remdups list.set(1) list.set(2))
    with ne have "hd vs = x" and "card (set vs) = 1"
      using hd_in_set [of vs] by auto
    with ne r show ?thesis by (simp add: spec_collapse_def length_uniq)
  next
    case (Cons y zs)
    with \<open>remdups vs = x # ys\<close> have r: "remdups vs = x # y # zs" by simp
    then have "length (remdups vs) \<noteq> 1" by simp
    then have "card (set vs) \<noteq> 1" by (simp add: length_remdups_card_conv)
    with ne r show ?thesis by (simp add: spec_collapse_def length_uniq)
  qed
qed

subsection \<open>The accessor's function, branch by branch\<close>

lemma forwarded_absent:
  "SC_none (fst (get_observableContent w p)) \<Longrightarrow>
   forwarded w p k v = (Inr (Val Undefined), snd (get_observableContent w p))"
  by (auto simp: forwarded_def split_beta SC_none_def)

lemma forwarded_read_scalar:
  assumes "\<not> SC_none (fst (get_observableContent w p))"
    and "\<not> SC_isEnumerable (heap w) (fst (get_observableContent w p))"
  shows "forwarded w p k Undefined =
           (Inr (Val (sc_get (heap w) (fst (get_observableContent w p)) k)),
            emit (snd (get_observableContent w p)) (EvGet (fst (get_observableContent w p)) k))"
  using assms by (simp add: forwarded_def split_beta goc_frame SC_none_def)

lemma forwarded_write_scalar:
  assumes "\<not> SC_none (fst (get_observableContent w p))"
    and "\<not> SC_isEnumerable (heap w) (fst (get_observableContent w p))"
    and "v \<noteq> Undefined"
  shows "forwarded w p k v =
           (if isEditable (proxies w p)
            then (Inr (Val v),
                  emit (snd (get_observableContent w p)
                          \<lparr>heap := sc_set (heap w) (fst (get_observableContent w p)) k v\<rparr>)
                    (EvSet (fst (get_observableContent w p)) k v))
            else (Inl (NotEditable p k), snd (get_observableContent w p)))"
  using assms by (simp add: forwarded_def split_beta goc_frame SC_none_def)

subsection \<open>Notification and the change of content\<close>

lemma notify_simps:
  "heap (notifyPropertyChange w p k) = heap w"
  "trace (notifyPropertyChange w p k) = trace w @ [EvNotify p k]"
  "proxiedProperties (notifyPropertyChange w p k) = proxiedProperties w"
  "proxies (notifyPropertyChange w p k) q =
     (if q = p then (proxies w p)\<lparr>cache := (cache (proxies w p))(k := None)\<rparr> else proxies w q)"
  by (simp_all add: notifyPropertyChange_def emit_simps upd_proxy_simps)

lemma notify_fold:
  "heap (foldl (\<lambda>w' key. notifyPropertyChange w' p key) w ks) = heap w"
  "trace (foldl (\<lambda>w' key. notifyPropertyChange w' p key) w ks) = trace w @ map (EvNotify p) ks"
  "proxiedProperties (foldl (\<lambda>w' key. notifyPropertyChange w' p key) w ks) = proxiedProperties w"
  "proxies (foldl (\<lambda>w' key. notifyPropertyChange w' p key) w ks) q =
     (if q = p
      then (proxies w p)\<lparr>cache := (\<lambda>k. if k \<in> set ks then None else cache (proxies w p) k)\<rparr>
      else proxies w q)"
  by (induction ks arbitrary: w)
    (auto simp: notify_simps fun_eq_iff intro!: arg_cong2 [where f = cache_update])

lemma set_content_simps:
  "heap (set_content w p v) = heap w"
  "trace (set_content w p v) = trace w @ map (EvNotify p) (proxiedProperties w)"
  "proxiedProperties (set_content w p v) = proxiedProperties w"
  "proxies (set_content w p v) q =
     (if q = p
      then (proxies w p)\<lparr>content := v, oc_cache := None,
             cache := (\<lambda>k. if k \<in> set (proxiedProperties w) then None else cache (proxies w p) k)\<rparr>
      else proxies w q)"
  by (simp_all add: set_content_def contentDidChange_def this_proxiedProperties_def
      notify_fold upd_proxy_simps cong: if_cong)

lemma after_set_null: "fst (get_observableContent (set_content w p Null) p) = Null"
  by (simp add: get_observableContent_def set_content_simps observableContent_def Let_def)

subsection \<open>\<open>destroy\<close>\<close>

lemma destroy_target:
  "(truthy t \<and> is_function (js_member h t k)) = (\<not> SC_none t \<and> is_function (js_member h t k))"
  by (cases t) (simp_all add: js_member_def SC_none_def)

lemma destroy_eq:
  "destroy w p =
     (p, set_content
           (if \<not> SC_none (fst (get_observableContent w p)) \<and>
               is_function (js_member (heap w) (fst (get_observableContent w p)) ''destroy'')
            then emit (snd (get_observableContent w p))
                   (EvDestroy (fst (get_observableContent w p)))
            else snd (get_observableContent w p)) p Null)"
  by (simp add: destroy_def split_beta Let_def destroy_target goc_frame)

subsection \<open>The targets of the scenarios\<close>

lemma team_target: "fst (get_observableContent team_world 0) = Ref 1"
  by (simp add: get_observableContent_def team_world_def new_proxy_def observableContent_def
      SC_isEnumerable_def sc_get_def team_heap_def Let_def)

lemma ann_world_facts:
  "fst (get_observableContent ann_world 0) = Ref 1"
  "\<not> SC_none (Ref 1)"
  "\<not> SC_isEnumerable (heap ann_world) (Ref 1)"
  by (simp_all add: ann_world_def new_proxy_def get_observableContent_def observableContent_def
      SC_isEnumerable_def sc_get_def ann_heap_def empty_obj_def SC_none_def Let_def)

lemma ann_locked_facts:
  "\<not> isEditable (proxies ann_locked 0)"
  "\<not> SC_none (fst (get_observableContent ann_locked 0))"
  by (simp_all add: ann_locked_def new_proxy_def get_observableContent_def observableContent_def
      SC_isEnumerable_def sc_get_def ann_heap_def empty_obj_def SC_none_def Let_def)

lemma falsy_world_target: "\<not> truthy t \<Longrightarrow> fst (get_observableContent (falsy_world t) 0) = t"
  by (simp add: falsy_world_def new_proxy_def get_observableContent_def observableContent_def
      Let_def)

lemma solo_facts:
  "SC_isEnumerable solo_heap (Ref 1)"
  "sc_get solo_heap (Ref 1) ''length'' = VNum 1"
  by (simp_all add: solo_heap_def SC_isEnumerable_def sc_get_def)

lemma nested_facts:
  "SC_isEnumerable nested_heap (Ref 1)"
  "sc_get nested_heap (Ref 1) ''length'' = VNum 1"
  by (simp_all add: nested_heap_def SC_isEnumerable_def sc_get_def)

lemma team_read_facts:
  "this_proxiedProperties team_read 0 = [''status'']"
  "cache (proxies team_read 0) ''status'' = Some (Seq [VStr ''ok'', VStr ''ok'', VStr ''fail''])"
  "content (proxies team_read 0) = Ref 1"
  "trace team_read = [EvDefine 0 ''status'', EvGetEach (Ref 1) ''status'']"
  by (simp_all add: team_read_def proxy_get_def unknownProperty_def defineProperty_def
      computed_get_def forwarded_def get_observableContent_def observableContent_def
      this_proxiedProperties_def set_add_def team_world_def team_heap_def new_proxy_def
      upd_proxy_def emit_def getEach_def uniq_def SC_isEnumerable_def sc_get_def empty_obj_def
      Let_def)

lemma ann_destroyable:
  "is_function (js_member (heap ann_world) (Ref 1) ''destroy'')"
  "this_proxiedProperties ann_world 0 = [''name'']"
  "trace ann_world = []"
  by (simp_all add: ann_world_def ann_heap_def js_member_def this_proxiedProperties_def)

lemma init_target: "fst (get_observableContent init_world 0) = Null"
  by (simp add: init_world_def new_proxy_def get_observableContent_def observableContent_def
      Let_def)

section \<open>The content resolver\<close>

text \<open>
  C1. Content that is not a collection is its own observable content. A collection of
  length 0 resolves to null; one of length above 1 resolves to null when
  allowsMultipleContent is false and to the collection itself when it is true; and when
  the sole element of a collection of length 1 is itself a collection while
  allowsMultipleContent is false, the result is null.
\<close>

theorem observableContent_resolves:
  "(\<not> SC_isEnumerable h c \<longrightarrow> observableContent h c am = c) \<and>
   (SC_isEnumerable h c \<and> sc_get h c ''length'' = VNum 0 \<longrightarrow>
      observableContent h c am = Null) \<and>
   (SC_isEnumerable h c \<and> sc_get h c ''length'' = VNum n \<and> 1 < n \<longrightarrow>
      observableContent h c am = (if am then c else Null)) \<and>
   (SC_isEnumerable h c \<and> sc_get h c ''length'' = VNum 1 \<and> \<not> am \<and>
      SC_isEnumerable h (sc_get h c ''firstObject'') \<longrightarrow>
      observableContent h c am = Null)"
  by (auto simp: observableContent_def Let_def dest: enumerable_truthy)

theorem observableContent_resolves_witness:
  "observableContent ann_heap (Ref 1) False = Ref 1 \<and>
   observableContent nested_heap (Ref 2) True = Ref 2 \<and>
   observableContent nested_heap (Ref 2) False = Null \<and>
   observableContent nested_heap (Ref 1) False = Null \<and>
   observableContent team_heap (Ref 1) True = Ref 1"
  using observableContent_resolves [of ann_heap "Ref 1" False 2]
    observableContent_resolves [of nested_heap "Ref 2" True 2]
    observableContent_resolves [of nested_heap "Ref 2" False 2]
    observableContent_resolves [of nested_heap "Ref 1" False 2]
    observableContent_resolves [of team_heap "Ref 1" True 3]
  by (simp add: SC_isEnumerable_def sc_get_def ann_heap_def nested_heap_def team_heap_def
      empty_obj_def)

text \<open>
  C5 (as the code has it). The observable content of a collection of length exactly 1 is
  its sole element, for both values of allowsMultipleContent, except that it is null when
  the sole element is itself a collection and allowsMultipleContent is false (line 132).
\<close>

theorem single_element_collection:
  assumes "SC_isEnumerable h c" and "sc_get h c ''length'' = VNum 1"
  shows "observableContent h c am =
           (if \<not> am \<and> SC_isEnumerable h (sc_get h c ''firstObject'') then Null
            else sc_get h c ''firstObject'')"
  using assms by (auto simp: observableContent_def Let_def dest: enumerable_truthy)

theorem single_element_collection_witness:
  "observableContent solo_heap (Ref 1) False = Ref 2 \<and>
   observableContent solo_heap (Ref 1) True = Ref 2 \<and>
   observableContent nested_heap (Ref 1) True = Ref 2"
  using single_element_collection [OF solo_facts, of False]
    single_element_collection [OF solo_facts, of True]
    single_element_collection [OF nested_facts, of True]
  by (simp add: solo_heap_def nested_heap_def SC_isEnumerable_def sc_get_def empty_obj_def)

text \<open>
  C5 as stated fails: the sole element of the collection 1 is the collection 2, and with
  allowsMultipleContent false the observable content is null, not that element.
\<close>

theorem single_element_collection_nested:
  "SC_isEnumerable nested_heap (Ref 1) \<and>
   sc_get nested_heap (Ref 1) ''length'' = VNum 1 \<and>
   sc_get nested_heap (Ref 1) ''firstObject'' = Ref 2 \<and>
   observableContent nested_heap (Ref 1) False = Null \<and>
   observableContent nested_heap (Ref 1) False \<noteq> sc_get nested_heap (Ref 1) ''firstObject''"
  by (simp add: nested_heap_def observableContent_def SC_isEnumerable_def sc_get_def Let_def)

section \<open>The property forwarder\<close>

text \<open>
  C2. A read of a forwarded key \<open>k\<close> while the observable content is a collection
  gathers \<open>k\<close> from every element in order. An empty gathered sequence reads as
  undefined, exactly one distinct value reads as that value, and otherwise the read is
  the full ordered sequence; the read calls \<open>getEach\<close> on the collection once and
  changes no object.
\<close>

theorem forwarded_read_collection:
  assumes "fst (get_observableContent w p) = Ref a"
    and "elems (heap w a) = Some xs"
  shows "fst (forwarded w p k Undefined) =
           Inr (spec_collapse (map (\<lambda>item. sc_get (heap w) item k) xs)) \<and>
         heap (snd (forwarded w p k Undefined)) = heap w \<and>
         trace (snd (forwarded w p k Undefined)) = trace w @ [EvGetEach (Ref a) k]"
proof -
  define vs where "vs = map (\<lambda>item. sc_get (heap w) item k) xs"
  have g: "getEach (heap w) (Ref a) k = Inr vs"
    using assms(2) by (simp add: getEach_def vs_def)
  have e: "SC_isEnumerable (heap w) (Ref a)"
    using assms(2) by (rule collection_enumerable)
  have "forwarded w p k Undefined =
          (Inr (if vs = [] then Val Undefined
                else if length (uniq vs) = 1 then Val (hd vs) else Seq vs),
           emit (snd (get_observableContent w p)) (EvGetEach (Ref a) k))"
    using assms(1) g e by (simp add: forwarded_def split_beta goc_frame)
  then have "forwarded w p k Undefined =
          (Inr (spec_collapse vs), emit (snd (get_observableContent w p)) (EvGetEach (Ref a) k))"
    by (simp only: collapse_eq)
  then show ?thesis
    by (simp add: emit_simps goc_frame vs_def)
qed

theorem forwarded_read_collection_witness:
  "fst (forwarded team_world 0 ''kind'' Undefined) = Inr (Val (VStr ''task'')) \<and>
   fst (forwarded team_world 0 ''status'' Undefined) =
     Inr (Seq [VStr ''ok'', VStr ''ok'', VStr ''fail''])"
  using forwarded_read_collection [OF team_target, of "[Ref 2, Ref 3, Ref 4]" "''kind''"]
    forwarded_read_collection [OF team_target, of "[Ref 2, Ref 3, Ref 4]" "''status''"]
  by (simp add: team_world_def team_heap_def spec_collapse_def sc_get_def empty_obj_def)

text \<open>
  C3 (as the code has it). A write (a call of the accessor's function with a value other
  than undefined) to a forwarded key while isEditable is false and the observable content
  is neither null nor undefined raises the error that names the proxy and the key; no
  object is changed, no call is made on the target, and the proxy's content stays.
\<close>

theorem write_not_editable:
  assumes "\<not> isEditable (proxies w p)"
    and "\<not> SC_none (fst (get_observableContent w p))"
    and "v \<noteq> Undefined"
  shows "fst (forwarded w p k v) = Inl (NotEditable p k) \<and>
         heap (snd (forwarded w p k v)) = heap w \<and>
         trace (snd (forwarded w p k v)) = trace w \<and>
         content (proxies (snd (forwarded w p k v)) p) = content (proxies w p)"
  using assms by (simp add: forwarded_def split_beta goc_frame SC_none_def)

theorem write_not_editable_witness:
  "fst (forwarded ann_locked 0 ''name'' (VStr ''X'')) = Inl (NotEditable 0 ''name'') \<and>
   sc_get (heap (snd (forwarded ann_locked 0 ''name'' (VStr ''X'')))) (Ref 1) ''name'' = VStr ''Ann''"
  using write_not_editable [OF ann_locked_facts, of "VStr ''X''" "''name''"]
  by (simp add: ann_locked_def ann_heap_def sc_get_def)

text \<open>
  C3 as stated fails: the check of line 175 comes before the check of isEditable, so a
  write to a proxy that is not editable and has no content raises nothing.
\<close>

theorem write_not_editable_null_content:
  "\<not> isEditable (proxies locked_world 0) \<and>
   fst (get_observableContent locked_world 0) = Null \<and>
   fst (forwarded locked_world 0 ''name'' (VStr ''X'')) = Inr (Val Undefined) \<and>
   fst (computed_set locked_world 0 ''name'' (VStr ''X'')) \<noteq> Inl (NotEditable 0 ''name'')"
  by (simp add: locked_world_def init_world_def new_proxy_def upd_proxy_def forwarded_def
      computed_set_def get_observableContent_def observableContent_def Let_def)

text \<open>
  C4 (as the code has it). A write of a value \<open>v\<close> to a forwarded key while the
  observable content is null raises no error, changes no object and makes no call on any
  target; the accessor's function returns undefined, not \<open>v\<close>, that is what the
  accessor caches, and the next read of the key returns undefined.
\<close>

theorem write_null_target:
  assumes "fst (get_observableContent w p) = Null"
  shows "fst (forwarded w p k v) = Inr (Val Undefined) \<and>
         heap (snd (forwarded w p k v)) = heap w \<and>
         trace (snd (forwarded w p k v)) = trace w \<and>
         fst (computed_set w p k v) = Inr (Val Undefined) \<and>
         heap (snd (computed_set w p k v)) = heap w \<and>
         trace (snd (computed_set w p k v)) = trace w \<and>
         fst (computed_get (snd (computed_set w p k v)) p k) = Inr (Val Undefined)"
proof -
  have n: "SC_none (fst (get_observableContent w p))"
    using assms by (simp add: SC_none_def)
  let ?w0 = "upd_proxy w p (\<lambda>q. q\<lparr>cache := (cache q)(k := None)\<rparr>)"
  have n0: "SC_none (fst (get_observableContent ?w0 p))"
    using n by (simp add: goc_cache_upd)
  have s: "computed_set w p k v =
             (Inr (Val Undefined),
              upd_proxy (snd (get_observableContent ?w0 p)) p
                (\<lambda>q. q\<lparr>cache := (cache q)(k := Some (Val Undefined))\<rparr>))"
    by (simp add: computed_set_def forwarded_absent [OF n0])
  show ?thesis
    by (simp add: forwarded_absent [OF n] s goc_frame upd_proxy_simps computed_get_def)
qed

theorem write_null_target_witness:
  "fst (forwarded init_world 0 ''name'' (VStr ''X'')) = Inr (Val Undefined) \<and>
   heap (snd (forwarded init_world 0 ''name'' (VStr ''X''))) = heap init_world \<and>
   fst (computed_get (snd (computed_set init_world 0 ''name'' (VStr ''X''))) 0 ''name'') =
     Inr (Val Undefined)"
  using write_null_target [OF init_target, of "''name''" "VStr ''X''"]
  by simp

text \<open>
  C4 as stated fails: the write of \<open>'X'\<close> to \<open>name\<close> on a proxy without content
  returns undefined, and the read that follows returns undefined.
\<close>

theorem write_null_target_not_recorded:
  "fst (get_observableContent init_world 0) = Null \<and>
   fst (forwarded init_world 0 ''name'' (VStr ''X'')) = Inr (Val Undefined) \<and>
   fst (forwarded init_world 0 ''name'' (VStr ''X'')) \<noteq> Inr (Val (VStr ''X'')) \<and>
   fst (computed_get (snd (computed_set init_world 0 ''name'' (VStr ''X''))) 0 ''name'') =
     Inr (Val Undefined)"
  by (simp add: init_world_def new_proxy_def upd_proxy_def forwarded_def computed_set_def
      computed_get_def get_observableContent_def observableContent_def Let_def)

text \<open>
  C9. A write of \<open>v\<close> to a forwarded key \<open>k\<close> while the observable content is a
  scalar \<open>t\<close>, neither null nor undefined, leaves the content, allowsMultipleContent
  and isEditable of every proxy as they were, leaves every property other than \<open>k\<close>
  of \<open>t\<close> and the elements of every object as they were, and, when the proxy is
  editable, returns \<open>v\<close> and stores \<open>v\<close> in property \<open>k\<close> of \<open>t\<close>.
\<close>

theorem write_scalar_frame:
  assumes "fst (get_observableContent w p) = t"
    and "\<not> SC_none t"
    and "\<not> SC_isEnumerable (heap w) t"
    and "v \<noteq> Undefined"
  shows "(\<forall>q. content (proxies (snd (forwarded w p k v)) q) = content (proxies w q) \<and>
              allowsMultipleContent (proxies (snd (forwarded w p k v)) q) =
                allowsMultipleContent (proxies w q) \<and>
              isEditable (proxies (snd (forwarded w p k v)) q) = isEditable (proxies w q)) \<and>
         (\<forall>a k'. Ref a \<noteq> t \<or> k' \<noteq> k \<longrightarrow>
              props (heap (snd (forwarded w p k v)) a) k' = props (heap w a) k') \<and>
         (\<forall>a. elems (heap (snd (forwarded w p k v)) a) = elems (heap w a)) \<and>
         (isEditable (proxies w p) \<longrightarrow>
            fst (forwarded w p k v) = Inr (Val v) \<and>
            heap (snd (forwarded w p k v)) = sc_set (heap w) t k v \<and>
            (\<forall>a. t = Ref a \<longrightarrow> props (heap (snd (forwarded w p k v)) a) k = v))"
  using assms
  by (auto simp: forwarded_write_scalar emit_simps goc_frame sc_set_frame)

theorem write_scalar_frame_witness:
  "fst (forwarded ann_world 0 ''age'' (VNum 30)) = Inr (Val (VNum 30)) \<and>
   props (heap (snd (forwarded ann_world 0 ''age'' (VNum 30))) 1) ''age'' = VNum 30 \<and>
   props (heap (snd (forwarded ann_world 0 ''age'' (VNum 30))) 1) ''name'' = VStr ''Ann'' \<and>
   content (proxies (snd (forwarded ann_world 0 ''age'' (VNum 30))) 0) = Ref 1"
proof -
  have e: "isEditable (proxies ann_world 0)"
    by (simp add: ann_world_def new_proxy_def)
  have nz: "VNum 30 \<noteq> Undefined"
    by simp
  note t = write_scalar_frame [OF ann_world_facts nz, where k = "''age''"]
  from t e have a: "fst (forwarded ann_world 0 ''age'' (VNum 30)) = Inr (Val (VNum 30))"
    and b: "props (heap (snd (forwarded ann_world 0 ''age'' (VNum 30))) 1) ''age'' = VNum 30"
    and c: "props (heap (snd (forwarded ann_world 0 ''age'' (VNum 30))) 1) ''name'' =
           props (heap ann_world 1) ''name''"
    and d: "content (proxies (snd (forwarded ann_world 0 ''age'' (VNum 30))) 0) =
           content (proxies ann_world 0)"
    by (simp_all add: sc_set_frame)
  from a b c d show ?thesis
    by (simp add: ann_world_def ann_heap_def new_proxy_def)
qed

text \<open>
  C10. Only null and undefined count as absent. When the observable content \<open>t\<close> is
  another falsy value (false, 0, the empty string), the resolver returns such content
  unchanged, a read of a forwarded key is \<open>get(t, k)\<close> and the call is made on
  \<open>t\<close>, a write on an editable proxy is \<open>set(t, k, v)\<close> and returns \<open>v\<close>, and a
  write on a proxy that is not editable raises the error, as for any present target.
\<close>

theorem falsy_target_not_absent:
  assumes "fst (get_observableContent w p) = t"
    and "\<not> truthy t"
    and "\<not> SC_none t"
  shows "observableContent h t am = t \<and>
         fst (forwarded w p k Undefined) = Inr (Val (sc_get (heap w) t k)) \<and>
         trace (snd (forwarded w p k Undefined)) = trace w @ [EvGet t k] \<and>
         (v \<noteq> Undefined \<and> isEditable (proxies w p) \<longrightarrow>
            fst (forwarded w p k v) = Inr (Val v) \<and>
            heap (snd (forwarded w p k v)) = sc_set (heap w) t k v \<and>
            trace (snd (forwarded w p k v)) = trace w @ [EvSet t k v]) \<and>
         (v \<noteq> Undefined \<and> \<not> isEditable (proxies w p) \<longrightarrow>
            fst (forwarded w p k v) = Inl (NotEditable p k))"
  using assms
  by (simp add: forwarded_write_scalar forwarded_read_scalar falsy_not_enumerable
      emit_simps goc_frame observableContent_def)

theorem falsy_target_not_absent_witness:
  "fst (forwarded (falsy_world (VBool False)) 0 ''name'' (VStr ''X'')) = Inr (Val (VStr ''X'')) \<and>
   trace (snd (forwarded (falsy_world (VBool False)) 0 ''name'' (VStr ''X''))) =
     [EvSet (VBool False) ''name'' (VStr ''X'')] \<and>
   trace (snd (forwarded (falsy_world (VNum 0)) 0 ''name'' Undefined)) =
     [EvGet (VNum 0) ''name''] \<and>
   trace (snd (forwarded (falsy_world (VStr [])) 0 ''name'' Undefined)) =
     [EvGet (VStr []) ''name'']"
  using falsy_target_not_absent [OF falsy_world_target, where t = "VBool False" and v = "VStr ''X''" and k = "''name''"]
    falsy_target_not_absent [OF falsy_world_target, where t = "VNum 0" and k = "''name''"]
    falsy_target_not_absent [OF falsy_world_target, where t = "VStr []" and k = "''name''"]
  by (simp add: SC_none_def falsy_world_def init_world_def new_proxy_def)

section \<open>The content-change propagator\<close>

text \<open>
  C6. When \<open>content\<close> is set, whatever the new value, one change notification is
  emitted for every key of the forwarded-key set, in the order of the set, and the cache
  of every such key on the proxy is invalidated.
\<close>

theorem content_change_notifies:
  "content (proxies (set_content w p v) p) = v \<and>
   trace (set_content w p v) = trace w @ map (EvNotify p) (this_proxiedProperties w p) \<and>
   (\<forall>k \<in> set (this_proxiedProperties w p).
      cache (proxies (set_content w p v) p) k = None \<and>
      EvNotify p k \<in> set (trace (set_content w p v)))"
  by (simp add: set_content_simps this_proxiedProperties_def)

theorem content_change_notifies_witness:
  "cache (proxies team_read 0) ''status'' = Some (Seq [VStr ''ok'', VStr ''ok'', VStr ''fail'']) \<and>
   content (proxies team_read 0) = Ref 1 \<and>
   cache (proxies (set_content team_read 0 (Ref 1)) 0) ''status'' = None \<and>
   trace (set_content team_read 0 (Ref 1)) = trace team_read @ [EvNotify 0 ''status'']"
  using content_change_notifies [of team_read 0 "Ref 1"]
  by (simp add: team_read_facts)

section \<open>\<open>destroy\<close>\<close>

text \<open>
  C7. \<open>destroy()\<close> returns the proxy and leaves its content null and hasContent false.
  It calls the \<open>destroy\<close> of the observable content exactly once when that is neither
  null nor undefined and exposes a callable \<open>destroy\<close>, and not at all otherwise,
  before the notifications of the change of content. A second \<open>destroy()\<close> right
  after returns the proxy again and calls no \<open>destroy\<close>.
\<close>

theorem destroy_once:
  "fst (destroy w p) = p \<and>
   content (proxies (snd (destroy w p)) p) = Null \<and>
   trace (snd (destroy w p)) =
     trace w @
     (if \<not> SC_none (fst (get_observableContent w p)) \<and>
         is_function (js_member (heap w) (fst (get_observableContent w p)) ''destroy'')
      then [EvDestroy (fst (get_observableContent w p))] else []) @
     map (EvNotify p) (this_proxiedProperties w p) \<and>
   fst (hasContent (snd (destroy w p)) p) = False \<and>
   fst (destroy (snd (destroy w p)) p) = p \<and>
   trace (snd (destroy (snd (destroy w p)) p)) =
     trace (snd (destroy w p)) @ map (EvNotify p) (this_proxiedProperties w p)"
proof -
  obtain w2 where d: "destroy w p = (p, set_content w2 p Null)"
    and t2: "trace w2 = trace w @
       (if \<not> SC_none (fst (get_observableContent w p)) \<and>
           is_function (js_member (heap w) (fst (get_observableContent w p)) ''destroy'')
        then [EvDestroy (fst (get_observableContent w p))] else [])"
    and r2: "proxiedProperties w2 = proxiedProperties w"
    by (simp add: destroy_eq emit_simps goc_frame)
  have n: "SC_none (fst (get_observableContent (set_content w2 p Null) p))"
    by (simp add: after_set_null SC_none_def)
  show ?thesis
    using n
    by (simp add: d t2 r2 set_content_simps this_proxiedProperties_def hasContent_def
        split_beta destroy_eq [of "set_content w2 p Null"] goc_frame)
qed

theorem destroy_once_witness:
  "fst (destroy ann_world 0) = 0 \<and>
   content (proxies (snd (destroy ann_world 0)) 0) = Null \<and>
   trace (snd (destroy ann_world 0)) = [EvDestroy (Ref 1), EvNotify 0 ''name''] \<and>
   trace (snd (destroy (snd (destroy ann_world 0)) 0)) =
     [EvDestroy (Ref 1), EvNotify 0 ''name'', EvNotify 0 ''name'']"
  using destroy_once [of ann_world 0] ann_world_facts ann_destroyable
  by simp

section \<open>The forwarded-key registry\<close>

text \<open>
  C8. The registry of line 212 is one set for all instances: after the first read of
  \<open>name\<close> on proxy 0, the registry that proxy 1 sees holds \<open>name\<close> although no
  accessor is installed on proxy 1, and a change of the content of proxy 1 notifies
  \<open>name\<close> there.
\<close>

theorem registry_shared_by_instances:
  "this_proxiedProperties (snd (proxy_get init_world 0 ''name'')) 1 = [''name''] \<and>
   defined (proxies (snd (proxy_get init_world 0 ''name'')) 1) = [] \<and>
   defined (proxies (snd (proxy_get init_world 0 ''name'')) 0) = [''name''] \<and>
   trace (set_content (snd (proxy_get init_world 0 ''name'')) 1 (Ref 1)) =
     [EvDefine 0 ''name'', EvNotify 1 ''name'']"
  by (simp add: set_content_simps proxy_get_def unknownProperty_def defineProperty_def computed_get_def
      forwarded_def get_observableContent_def observableContent_def this_proxiedProperties_def
      set_add_def init_world_def new_proxy_def upd_proxy_def emit_def Let_def)

end
